theory Spec2Isabelle
  imports Main "HOL-Library.Word"
begin

section \<open>JavaScript strings\<close>

text \<open>
  A JavaScript string is a sequence of 16-bit code units. The relational operator
  \<open><\<close> on two strings compares them code unit by code unit; a proper prefix is
  smaller than the longer string. A template literal \<open>`${a}_${b}`\<close> concatenates
  its parts around the code unit of the underscore, U+005F.
\<close>

type_synonym code_unit = "16 word"
type_synonym jsstring = "code_unit list"

fun str_lt :: "jsstring \<Rightarrow> jsstring \<Rightarrow> bool" where
  "str_lt [] [] = False"
| "str_lt [] (y # ys) = True"
| "str_lt (x # xs) [] = False"
| "str_lt (x # xs) (y # ys) = (if x = y then str_lt xs ys else x < y)"

definition underscore :: code_unit where
  "underscore = 0x5F"

definition template2 :: "jsstring \<Rightarrow> jsstring \<Rightarrow> jsstring" where
  "template2 a b = a @ [underscore] @ b"

section \<open>Group call signaling (GroupVideoCall.tsx)\<close>

subsection \<open>Offer/answer roles and the connection document\<close>

text \<open>
  \<open>setupPeerConnection(participantId, callDocId)\<close> runs on the side of
  \<open>currentUserId\<close> for the remote \<open>participantId\<close>.
\<close>

definition shouldCreateOffer :: "jsstring \<Rightarrow> jsstring \<Rightarrow> bool" where
  "shouldCreateOffer currentUserId participantId = str_lt currentUserId participantId"

definition connectionId :: "jsstring \<Rightarrow> jsstring \<Rightarrow> jsstring" where
  "connectionId currentUserId participantId =
     (if shouldCreateOffer currentUserId participantId
      then template2 currentUserId participantId
      else template2 participantId currentUserId)"

text \<open>The document the offerer stores its offer in (the \<open>setDoc\<close> of the offer branch).\<close>

definition offerDocId :: "jsstring \<Rightarrow> jsstring \<Rightarrow> jsstring" where
  "offerDocId currentUserId participantId = template2 currentUserId participantId"

text \<open>
  Firestore locations under \<open>groupCalls/{callDocId}/connections\<close>: the connection
  document and its \<open>candidates\<close> subcollection.
\<close>

datatype fs_path =
    ConnectionDoc jsstring jsstring
  | CandidatesColl jsstring jsstring

text \<open>Where \<open>onicecandidate\<close> stores the local candidates.\<close>

definition candidatesRef :: "jsstring \<Rightarrow> jsstring \<Rightarrow> jsstring \<Rightarrow> fs_path" where
  "candidatesRef callDocId currentUserId participantId =
     CandidatesColl callDocId
       (if shouldCreateOffer currentUserId participantId
        then template2 currentUserId participantId
        else template2 participantId currentUserId)"

text \<open>The document watched for the offer and the answer, where the answer is stored.\<close>

definition connectionRef :: "jsstring \<Rightarrow> jsstring \<Rightarrow> jsstring \<Rightarrow> fs_path" where
  "connectionRef callDocId currentUserId participantId =
     ConnectionDoc callDocId (connectionId currentUserId participantId)"


text \<open>Where the offer goes: \<open>doc(callConnectionsRef, `${currentUserId}_${participantId}`)\<close>.\<close>

definition offerRef :: "jsstring \<Rightarrow> jsstring \<Rightarrow> jsstring \<Rightarrow> fs_path" where
  "offerRef callDocId currentUserId participantId =
     ConnectionDoc callDocId (offerDocId currentUserId participantId)"



subsection \<open>The calls a handler makes\<close>

text \<open>
  The handlers of a peer connection are modelled by the calls they make on the
  WebRTC and Firestore APIs, in order, given what those calls return. Logging and
  the updates of the displayed participant list are left out.
\<close>

record session_description =
  sd_type :: jsstring
  sdp :: jsstring

record ice_candidate_init =
  ic_sdpMLineIndex :: "nat option"
  ic_candidate :: "jsstring option"
  ic_sdpMid :: "jsstring option"

datatype timer_task = RetryCandidate ice_candidate_init

datatype effect =
    CreateOffer
  | CreateAnswer
  | SetLocalDescription session_description
  | SetRemoteDescription session_description
  | SetOfferDoc fs_path session_description jsstring jsstring
  | UpdateAnswerDoc fs_path session_description
  | SetCandidateDoc fs_path ice_candidate_init jsstring
  | RestartIce
  | AddIceCandidate ice_candidate_init
  | SetTimeout nat timer_task
  | LogIncompleteCandidate

text \<open>
  What the API calls of one run return: \<open>None\<close> for a call that throws, a flag for a
  call that returns nothing.
\<close>

record rtc_env =
  userExists :: bool
  createOffer_result :: "session_description option"
  createAnswer_result :: "session_description option"
  setLocalDescription_ok :: bool
  setRemoteDescription_ok :: bool

datatype connection_state = New | Connecting | Connected | Disconnected | Failed | Closed

text \<open>\<open>peerConnection.onconnectionstatechange\<close>: the recovery part.\<close>

definition onconnectionstatechange ::
  "jsstring \<Rightarrow> jsstring \<Rightarrow> connection_state \<Rightarrow> effect list" where
  "onconnectionstatechange currentUserId participantId st =
     (if st = Failed \<or> st = Disconnected
      then (let shouldCreateOffer' = str_lt currentUserId participantId
            in if shouldCreateOffer' then [RestartIce] else [])
      else [])"


text \<open>
  The offer section of \<open>setupPeerConnection\<close>. Without a user document for the
  participant the function returns before it; a missing or empty SDP ends it, and an
  exception is caught and logged.
\<close>

definition setupPeerConnection_offer ::
  "rtc_env \<Rightarrow> jsstring \<Rightarrow> jsstring \<Rightarrow> jsstring \<Rightarrow> effect list" where
  "setupPeerConnection_offer env callDocId currentUserId participantId =
     (if \<not> userExists env then []
      else if shouldCreateOffer currentUserId participantId then
        (case createOffer_result env of
           None \<Rightarrow> [CreateOffer]
         | Some offer \<Rightarrow>
             if sdp offer = [] then [CreateOffer]
             else if \<not> setLocalDescription_ok env then [CreateOffer, SetLocalDescription offer]
             else if sd_type offer \<noteq> [] \<and> sdp offer \<noteq> [] then
               [CreateOffer, SetLocalDescription offer,
                SetOfferDoc (offerRef callDocId currentUserId participantId) offer
                  currentUserId participantId]
             else [CreateOffer, SetLocalDescription offer])
      else [])"

text \<open>
  The listener on the connection document. \<open>snapshot\<close> is \<open>None\<close> when the document
  does not exist; \<open>hasLocal\<close> is the truthiness of
  \<open>peerConnection.currentLocalDescription\<close>.
\<close>

record connection_data =
  offer :: "session_description option"
  answer :: "session_description option"

definition onConnectionSnapshot ::
  "rtc_env \<Rightarrow> jsstring \<Rightarrow> jsstring \<Rightarrow> jsstring \<Rightarrow> connection_data option \<Rightarrow> bool
     \<Rightarrow> effect list" where
  "onConnectionSnapshot env callDocId currentUserId participantId snapshot hasLocal =
     (case snapshot of
        None \<Rightarrow> []
      | Some data \<Rightarrow>
          if offer data \<noteq> None \<and> \<not> shouldCreateOffer currentUserId participantId
             \<and> \<not> hasLocal then
            (case offer data of
               None \<Rightarrow> []
             | Some off \<Rightarrow>
                 if sdp off = [] then []
                 else if \<not> setRemoteDescription_ok env then [SetRemoteDescription off]
                 else
                   (case createAnswer_result env of
                      None \<Rightarrow> [SetRemoteDescription off, CreateAnswer]
                    | Some ans \<Rightarrow>
                        if sdp ans = [] then [SetRemoteDescription off, CreateAnswer]
                        else if \<not> setLocalDescription_ok env then
                          [SetRemoteDescription off, CreateAnswer, SetLocalDescription ans]
                        else if sd_type ans \<noteq> [] \<and> sdp ans \<noteq> [] then
                          [SetRemoteDescription off, CreateAnswer, SetLocalDescription ans,
                           UpdateAnswerDoc
                             (connectionRef callDocId currentUserId participantId) ans]
                        else
                          [SetRemoteDescription off, CreateAnswer, SetLocalDescription ans]))
          else if answer data \<noteq> None \<and> shouldCreateOffer currentUserId participantId
                  \<and> hasLocal then
            (case answer data of
               None \<Rightarrow> []
             | Some ans \<Rightarrow> if sdp ans = [] then [] else [SetRemoteDescription ans])
          else [])"

subsection \<open>The listener on the candidates of a connection\<close>

text \<open>
  A document of the \<open>candidates\<close> subcollection, as read back from Firestore: the
  fields of \<open>RTCIceCandidate.toJSON()\<close> and the sender. \<open>None\<close> stands for a
  field that is \<open>null\<close> or missing.
\<close>

record candidate_data =
  sender :: jsstring
  sdpMLineIndex :: "nat option"
  candidate :: "jsstring option"
  sdpMid :: "jsstring option"

datatype change_type = Added | Modified | Removed

text \<open>Truthiness of a number and of a string: \<open>0\<close> and the empty string are falsy.\<close>

fun truthy_num :: "nat option \<Rightarrow> bool" where
  "truthy_num None = False"
| "truthy_num (Some n) = (n \<noteq> 0)"

fun truthy_str :: "jsstring option \<Rightarrow> bool" where
  "truthy_str None = False"
| "truthy_str (Some s) = (s \<noteq> [])"

text \<open>\<open>new RTCIceCandidate({sdpMLineIndex, candidate, sdpMid})\<close> from the record.\<close>

definition mk_candidate :: "candidate_data \<Rightarrow> ice_candidate_init" where
  "mk_candidate data =
     \<lparr>ic_sdpMLineIndex = sdpMLineIndex data, ic_candidate = candidate data,
      ic_sdpMid = sdpMid data\<rparr>"

text \<open>
  The body run for one document change; \<open>hasRemote\<close> is the truthiness of
  \<open>peerConnection.remoteDescription\<close> when the change is handled.
\<close>

definition onCandidateChange ::
  "jsstring \<Rightarrow> change_type \<Rightarrow> candidate_data \<Rightarrow> bool \<Rightarrow> effect list" where
  "onCandidateChange currentUserId ty data hasRemote =
     (if ty = Added then
        (if sender data \<noteq> currentUserId then
           (if \<not> truthy_num (sdpMLineIndex data) \<or> \<not> truthy_str (candidate data)
               \<or> \<not> truthy_str (sdpMid data)
            then [LogIncompleteCandidate]
            else
              (let candidate' = mk_candidate data
               in if hasRemote then [AddIceCandidate candidate']
                  else [SetTimeout 2000 (RetryCandidate candidate')]))
         else [])
      else [])"

text \<open>
  The callback of the timer, run when it fires; \<open>hasRemote\<close> is the truthiness of
  \<open>peerConnection.remoteDescription\<close> at that moment.
\<close>

fun run_timer :: "timer_task \<Rightarrow> bool \<Rightarrow> effect list" where
  "run_timer (RetryCandidate c) hasRemote = (if hasRemote then [AddIceCandidate c] else [])"

text \<open>Which effects hand a candidate to the connection, and which start a timer.\<close>

fun adds_candidate :: "effect \<Rightarrow> bool" where
  "adds_candidate (AddIceCandidate c) = True"
| "adds_candidate e = False"

fun schedules_timer :: "effect \<Rightarrow> bool" where
  "schedules_timer (SetTimeout d t) = True"
| "schedules_timer e = False"

subsection \<open>The call record\<close>

text \<open>
  A document of the \<open>groupCalls\<close> collection. The \<open>participants\<close> field is
  \<open>None\<close> when the stored value is missing or is not an array
  (\<open>Array.isArray\<close> fails). Timestamps are numbers given by the server.
\<close>

datatype call_status = Active | Ended

record group_call =
  groupId :: jsstring
  creatorId :: jsstring
  creatorName :: jsstring
  creatorPhotoURL :: jsstring
  status :: call_status
  participants :: "jsstring list option"
  startTime :: nat
  endTime :: "nat option"

datatype message_content = StartedVideoCall jsstring | JoinedTheCall jsstring

record group_message =
  gm_groupId :: jsstring
  senderId :: jsstring
  senderName :: jsstring
  content :: message_content

text \<open>
  The two collections the component writes, each as the list of its documents in the
  order a query returns them; a call document is paired with its id.
\<close>

record world =
  groupCalls :: "(jsstring \<times> group_call) list"
  groupMessages :: "group_message list"

text \<open>Which Firestore calls of one run succeed; a failing call throws.\<close>

record fs_env =
  getDocs_ok :: bool
  addCall_ok :: bool
  addMessage_ok :: bool
  updateDoc_ok :: bool
  getDoc_ok :: bool

text \<open>\<open>updateDoc\<close> changes the fields of an existing document and throws without one.\<close>

definition updateDoc ::
  "jsstring \<Rightarrow> (group_call \<Rightarrow> group_call) \<Rightarrow> (jsstring \<times> group_call) list
     \<Rightarrow> (jsstring \<times> group_call) list option" where
  "updateDoc docId f cs =
     (if map_of cs docId = None then None
      else Some (map (\<lambda>(i, c). if i = docId then (i, f c) else (i, c)) cs))"

definition participants_or_empty :: "group_call \<Rightarrow> jsstring list" where
  "participants_or_empty callData =
     (case participants callData of Some ps \<Rightarrow> ps | None \<Rightarrow> [])"

subsection \<open>cleanup\<close>

text \<open>
  The Firestore part of \<open>cleanup\<close>, for the \<open>callId\<close> of the render the function
  belongs to. Every exception is caught and logged.
\<close>

definition cleanup ::
  "fs_env \<Rightarrow> jsstring \<Rightarrow> jsstring option \<Rightarrow> nat \<Rightarrow> (jsstring \<times> group_call) list
     \<Rightarrow> (jsstring \<times> group_call) list" where
  "cleanup env currentUserId callId now cs =
     (case callId of
        None \<Rightarrow> cs
      | Some cid \<Rightarrow>
          if cid = [] then cs
          else if \<not> getDoc_ok env then cs
          else
            (case map_of cs cid of
               None \<Rightarrow> cs
             | Some callData \<Rightarrow>
                 (let currentParticipants = participants_or_empty callData;
                      updatedParticipants = filter (\<lambda>i. i \<noteq> currentUserId) currentParticipants
                  in if \<not> updateDoc_ok env then cs
                     else if creatorId callData = currentUserId \<or> updatedParticipants = [] then
                       (case updateDoc cid
                               (\<lambda>c. c\<lparr>status := Ended, participants := Some updatedParticipants,
                                      endTime := Some now\<rparr>) cs of
                          None \<Rightarrow> cs | Some cs' \<Rightarrow> cs')
                     else
                       (case updateDoc cid (\<lambda>c. c\<lparr>participants := Some updatedParticipants\<rparr>) cs of
                          None \<Rightarrow> cs | Some cs' \<Rightarrow> cs'))))"

text \<open>
  The two ways out of a call. \<open>endCall\<close>, the handler of the Leave button, belongs
  to the render that shows the button and runs the \<open>cleanup\<close> of that render, which
  sees the \<open>callId\<close> stored by \<open>setCallId\<close>. The function returned by the effect
  \<open>useEffect(() => { initializeCall(); return () => { cleanup(); }; }, [])\<close> is
  created once, in the first render, and React runs it when the component unmounts,
  as when the call dialog is closed: its \<open>cleanup\<close> sees the \<open>callId\<close> of the first
  render, the initial value \<open>null\<close> of \<open>useState\<close>.
\<close>

definition mount_callId :: "jsstring option" where
  "mount_callId = None"

definition endCall ::
  "fs_env \<Rightarrow> jsstring \<Rightarrow> jsstring option \<Rightarrow> nat \<Rightarrow> (jsstring \<times> group_call) list
     \<Rightarrow> (jsstring \<times> group_call) list" where
  "endCall env currentUserId callId now cs = cleanup env currentUserId callId now cs"

definition unmount ::
  "fs_env \<Rightarrow> jsstring \<Rightarrow> nat \<Rightarrow> (jsstring \<times> group_call) list
     \<Rightarrow> (jsstring \<times> group_call) list" where
  "unmount env currentUserId now cs = cleanup env currentUserId mount_callId now cs"

subsection \<open>initializeCall\<close>

text \<open>
  The first part of \<open>initializeCall\<close>, up to \<open>setCallId(callDocId)\<close>: the id of the
  call joined, or \<open>None\<close> when a Firestore call threw outside an inner \<open>try\<close>.
  \<open>newId\<close> is the id Firestore gives a new document and \<open>now\<close> the server time.
\<close>

definition activeCalls :: "jsstring \<Rightarrow> (jsstring \<times> group_call) list \<Rightarrow> (jsstring \<times> group_call) list" where
  "activeCalls gid cs = filter (\<lambda>(i, c). groupId c = gid \<and> status c = Active) cs"

definition initializeCall_record ::
  "fs_env \<Rightarrow> jsstring \<Rightarrow> jsstring \<Rightarrow> jsstring \<Rightarrow> jsstring option \<Rightarrow> jsstring \<Rightarrow> nat
     \<Rightarrow> world \<Rightarrow> world \<times> jsstring option" where
  "initializeCall_record env currentUserId gid displayName photoURL newId now w =
     (if \<not> getDocs_ok env then (w, None)
      else
        (case activeCalls gid (groupCalls w) of
           [] \<Rightarrow>
             (let callData =
                    \<lparr>groupId = gid, creatorId = currentUserId, creatorName = displayName,
                     creatorPhotoURL = (case photoURL of Some u \<Rightarrow> u | None \<Rightarrow> []),
                     status = Active, participants = Some [currentUserId],
                     startTime = now, endTime = None\<rparr>
              in if \<not> addCall_ok env then (w, None)
                 else
                   (let w1 = w\<lparr>groupCalls := groupCalls w @ [(newId, callData)]\<rparr>
                    in if \<not> addMessage_ok env then (w1, None)
                       else
                         (w1\<lparr>groupMessages := groupMessages w1 @
                               [\<lparr>gm_groupId = gid, senderId = currentUserId,
                                 senderName = displayName,
                                 content = StartedVideoCall displayName\<rparr>]\<rparr>,
                          Some newId)))
         | existingCall # rest \<Rightarrow>
             (let callDocId = fst existingCall;
                  callData = snd existingCall;
                  currentParticipants = participants_or_empty callData
              in if currentUserId \<notin> set currentParticipants then
                   (let updatedParticipants = currentParticipants @ [currentUserId]
                    in if \<not> updateDoc_ok env then (w, Some callDocId)
                       else
                         (case updateDoc callDocId
                                 (\<lambda>c. c\<lparr>participants := Some updatedParticipants\<rparr>)
                                 (groupCalls w) of
                            None \<Rightarrow> (w, Some callDocId)
                          | Some cs' \<Rightarrow>
                              (let w1 = w\<lparr>groupCalls := cs'\<rparr>
                               in if \<not> addMessage_ok env then (w1, Some callDocId)
                                  else
                                    (w1\<lparr>groupMessages := groupMessages w1 @
                                          [\<lparr>gm_groupId = gid, senderId = currentUserId,
                                            senderName = displayName,
                                            content = JoinedTheCall displayName\<rparr>]\<rparr>,
                                     Some callDocId))))
                 else (w, Some callDocId))))"

text \<open>
  Local media. \<open>getUserMedia video audio\<close> is the stream the browser grants for the
  constraints, or \<open>None\<close> when the request is rejected. A stream is the list of its
  tracks; \<open>new MediaStream()\<close> has none. The flags start as the component's state
  does: video on, microphone on.
\<close>

datatype track_kind = AudioTrack | VideoTrack

type_synonym media_stream = "track_kind list"

record local_media =
  stream :: media_stream
  hasVideo :: bool
  hasAudio :: bool
  isViewOnly :: bool
  isVideoOff :: bool
  isMicMuted :: bool

definition acquireMedia :: "(bool \<Rightarrow> bool \<Rightarrow> media_stream option) \<Rightarrow> local_media" where
  "acquireMedia getUserMedia =
     (case getUserMedia True True of
        Some s \<Rightarrow>
          \<lparr>stream = s, hasVideo = True, hasAudio = True, isViewOnly = False,
           isVideoOff = False, isMicMuted = False\<rparr>
      | None \<Rightarrow>
          (case getUserMedia False True of
             Some s \<Rightarrow>
               \<lparr>stream = s, hasVideo = False, hasAudio = True, isViewOnly = False,
                isVideoOff = True, isMicMuted = False\<rparr>
           | None \<Rightarrow>
               \<lparr>stream = [], hasVideo = False, hasAudio = False, isViewOnly = True,
                isVideoOff = True, isMicMuted = True\<rparr>))"

text \<open>
  The whole of \<open>initializeCall\<close>. It runs from the effect of the first render, so the
  \<open>cleanup\<close> of its \<open>catch\<close> sees the \<open>callId\<close> of that render, \<open>null\<close>.
\<close>

datatype init_outcome = JoinedCall jsstring local_media | JoinFailed

definition initializeCall ::
  "fs_env \<Rightarrow> (bool \<Rightarrow> bool \<Rightarrow> media_stream option) \<Rightarrow> jsstring \<Rightarrow> jsstring \<Rightarrow> jsstring
     \<Rightarrow> jsstring option \<Rightarrow> jsstring \<Rightarrow> nat \<Rightarrow> world \<Rightarrow> world \<times> init_outcome" where
  "initializeCall env getUserMedia currentUserId gid displayName photoURL newId now w =
     (case initializeCall_record env currentUserId gid displayName photoURL newId now w of
        (w', None) \<Rightarrow>
          (w'\<lparr>groupCalls := cleanup env currentUserId None now (groupCalls w')\<rparr>, JoinFailed)
      | (w', Some callDocId) \<Rightarrow> (w', JoinedCall callDocId (acquireMedia getUserMedia)))"

subsection \<open>Runs of the component\<close>

text \<open>
  A user opens the call of a group (\<open>initializeCall\<close>) or leaves the call with the
  given id (\<open>cleanup\<close> through the Leave button).
\<close>

datatype step =
    Join fs_env "bool \<Rightarrow> bool \<Rightarrow> media_stream option" jsstring jsstring jsstring
      "jsstring option" jsstring nat
  | Leave fs_env jsstring "jsstring option" nat

fun run_step :: "step \<Rightarrow> world \<Rightarrow> world" where
  "run_step (Join env getUserMedia currentUserId gid displayName photoURL newId now) w =
     fst (initializeCall env getUserMedia currentUserId gid displayName photoURL newId now w)"
| "run_step (Leave env currentUserId callId now) w =
     w\<lparr>groupCalls := cleanup env currentUserId callId now (groupCalls w)\<rparr>"

fun run_steps :: "step list \<Rightarrow> world \<Rightarrow> world" where
  "run_steps [] w = w"
| "run_steps (st # sts) w = run_steps sts (run_step st w)"

definition empty_world :: world where
  "empty_world = \<lparr>groupCalls = [], groupMessages = []\<rparr>"

definition no_duplicates :: "(jsstring \<times> group_call) list \<Rightarrow> bool" where
  "no_duplicates cs = list_all (\<lambda>(i, c). distinct (participants_or_empty c)) cs"

section \<open>The copy of the group call in PhilosophicalQuote.tsx\<close>

definition pq_shouldCreateOffer :: "jsstring \<Rightarrow> jsstring \<Rightarrow> bool" where
  "pq_shouldCreateOffer currentUserId participantId = str_lt currentUserId participantId"

definition pq_connectionId :: "jsstring \<Rightarrow> jsstring \<Rightarrow> jsstring" where
  "pq_connectionId currentUserId participantId =
     (if pq_shouldCreateOffer currentUserId participantId
      then template2 currentUserId participantId
      else template2 participantId currentUserId)"

definition pq_offerDocId :: "jsstring \<Rightarrow> jsstring \<Rightarrow> jsstring" where
  "pq_offerDocId currentUserId participantId = template2 currentUserId participantId"

definition pq_candidatesRef :: "jsstring \<Rightarrow> jsstring \<Rightarrow> jsstring \<Rightarrow> fs_path" where
  "pq_candidatesRef callDocId currentUserId participantId =
     CandidatesColl callDocId
       (if pq_shouldCreateOffer currentUserId participantId
        then template2 currentUserId participantId
        else template2 participantId currentUserId)"

section \<open>The one-to-one call (VideoCall in GroupMessages.tsx)\<close>

text \<open>
  The state of the component that \<open>startCall\<close> reads and writes. A function of the
  component sees the values of the render it was created in.
\<close>

record video_call_state =
  isCalling :: bool
  isCallConnected :: bool
  incomingCall :: "jsstring option"
  callDocId :: "jsstring option"

text \<open>The state of the first render: the initial values given to \<open>useState\<close>.\<close>

definition initial_state :: video_call_state where
  "initial_state =
     \<lparr>isCalling = False, isCallConnected = False, incomingCall = None, callDocId = None\<rparr>"

text \<open>
  The handler \<open>startCall\<close> assigns to \<open>peerConnection.onicecandidate\<close>, for the value
  of \<open>callDocId\<close> it closes over. The event carries a candidate or \<open>null\<close>; the store
  is the documents of the \<open>offerCandidates\<close> subcollections, each with the id of its
  call.
\<close>

definition vc_onicecandidate ::
  "jsstring option \<Rightarrow> ice_candidate_init option \<Rightarrow> (jsstring \<times> ice_candidate_init) list
     \<Rightarrow> (jsstring \<times> ice_candidate_init) list" where
  "vc_onicecandidate captured ev offerCandidates =
     (case ev of
        None \<Rightarrow> offerCandidates
      | Some c \<Rightarrow>
          (case captured of
             None \<Rightarrow> offerCandidates
           | Some cid \<Rightarrow> if cid = [] then offerCandidates else offerCandidates @ [(cid, c)]))"

text \<open>What the calls of one run of \<open>startCall\<close> do; a failing call throws.\<close>

record vc_env =
  vc_getUserMedia_ok :: bool
  vc_createOffer_ok :: bool
  vc_setLocalDescription_ok :: bool
  vc_setDoc_ok :: bool

datatype vc_step =
    InstallIceHandler "jsstring option"
  | VcCreateOffer
  | VcSetLocalDescription
  | SetCallDocument jsstring
  | SetCallDocId jsstring
  | VcCleanup

text \<open>The state changes of the component's \<open>cleanup\<close>.\<close>

definition vc_cleanup :: "video_call_state \<Rightarrow> video_call_state" where
  "vc_cleanup s = s\<lparr>isCalling := False, isCallConnected := False, callDocId := None,
                    incomingCall := None\<rparr>"

text \<open>
  \<open>startCall\<close>, created in a render with state \<open>s\<close>: the state it leaves and what it
  did, in order. \<open>newId\<close> is the id of the new document of \<open>calls\<close>.
\<close>

definition startCall ::
  "vc_env \<Rightarrow> video_call_state \<Rightarrow> jsstring \<Rightarrow> video_call_state \<times> vc_step list" where
  "startCall env s newId =
     (let s1 = s\<lparr>isCalling := True\<rparr>
      in if \<not> vc_getUserMedia_ok env then (vc_cleanup s1, [VcCleanup])
         else
           (let h = InstallIceHandler (callDocId s)
            in if \<not> vc_createOffer_ok env then (vc_cleanup s1, [h, VcCreateOffer, VcCleanup])
               else if \<not> vc_setLocalDescription_ok env then
                 (vc_cleanup s1, [h, VcCreateOffer, VcSetLocalDescription, VcCleanup])
               else if \<not> vc_setDoc_ok env then
                 (vc_cleanup s1,
                  [h, VcCreateOffer, VcSetLocalDescription, SetCallDocument newId, VcCleanup])
               else
                 (s1\<lparr>callDocId := Some newId\<rparr>,
                  [h, VcCreateOffer, VcSetLocalDescription, SetCallDocument newId,
                   SetCallDocId newId])))"

text \<open>The handlers a run installed, each as the value it closes over.\<close>

fun installed_handlers :: "vc_step list \<Rightarrow> jsstring option list" where
  "installed_handlers [] = []"
| "installed_handlers (InstallIceHandler cap # ts) = cap # installed_handlers ts"
| "installed_handlers (t # ts) = installed_handlers ts"

section \<open>Derived notions and sample data\<close>


text \<open>Sample data for the concrete runs below.\<close>

definition alice :: jsstring where
  "alice = [0x61]"

definition bob :: jsstring where
  "bob = [0x62]"

definition group1 :: jsstring where
  "group1 = [0x67]"

definition call1 :: jsstring where
  "call1 = [0x63, 0x31]"

definition all_ok :: fs_env where
  "all_ok = \<lparr>getDocs_ok = True, addCall_ok = True, addMessage_ok = True,
             updateDoc_ok = True, getDoc_ok = True\<rparr>"

definition denied :: "bool \<Rightarrow> bool \<Rightarrow> media_stream option" where
  "denied video audio = None"

definition call_of_two :: "(jsstring \<times> group_call) list" where
  "call_of_two =
     [(call1, \<lparr>groupId = group1, creatorId = alice, creatorName = alice,
               creatorPhotoURL = [], status = Active, participants = Some [alice, bob],
               startTime = 1, endTime = None\<rparr>)]"

section \<open>Properties\<close>

subsection \<open>String comparison\<close>

lemma str_lt_irrefl: "\<not> str_lt a a"
  by (induction a) simp_all

lemma str_lt_asym: "str_lt a b \<Longrightarrow> \<not> str_lt b a"
  by (induction a b rule: str_lt.induct) (auto split: if_splits)

lemma str_lt_total: "a \<noteq> b \<Longrightarrow> str_lt a b \<or> str_lt b a"
  by (induction a b rule: str_lt.induct) (auto split: if_splits)

lemma str_lt_exactly_one: "a \<noteq> b \<Longrightarrow> str_lt a b \<longleftrightarrow> \<not> str_lt b a"
  using str_lt_asym str_lt_total by blast

subsection \<open>Roles of a pair\<close>

lemma CreateOffer_in_offer:
  "CreateOffer \<in> set (setupPeerConnection_offer env c a b) \<longleftrightarrow> userExists env \<and> str_lt a b"
  by (simp add: setupPeerConnection_offer_def shouldCreateOffer_def split: option.splits)

lemma offerer_snapshot:
  "shouldCreateOffer a b \<Longrightarrow>
   onConnectionSnapshot env c a b snap l =
     (case snap of
        None \<Rightarrow> []
      | Some data \<Rightarrow>
          (case answer data of
             None \<Rightarrow> []
           | Some ans \<Rightarrow> if l \<and> sdp ans \<noteq> [] then [SetRemoteDescription ans] else []))"
  by (simp add: onConnectionSnapshot_def split: option.splits)

lemma CreateAnswer_in_snapshot:
  "CreateAnswer \<in> set (onConnectionSnapshot env c a b snap l) \<Longrightarrow> \<not> shouldCreateOffer a b"
proof
  assume "shouldCreateOffer a b"
  then have "CreateAnswer \<notin> set (onConnectionSnapshot env c a b snap l)"
    by (simp add: offerer_snapshot split: option.splits)
  moreover assume "CreateAnswer \<in> set (onConnectionSnapshot env c a b snap l)"
  ultimately show False by simp
qed

lemma RestartIce_iff:
  "RestartIce \<in> set (onconnectionstatechange a b st)
     \<longleftrightarrow> (st = Failed \<or> st = Disconnected) \<and> str_lt a b"
  unfolding onconnectionstatechange_def Let_def by auto

text \<open>
  Claim C1. For two distinct participant ids the role is decided by the string
  comparison alone: \<open>shouldCreateOffer\<close> is \<open>currentUserId < participantId\<close>, it holds
  on exactly one of the two sides, the side where it holds is the one that creates the
  offer (once the participant's user document is found), a side that creates an answer
  is never that side, and on a failed or disconnected connection the ICE restart is
  done by the side the same comparison selects.
\<close>

theorem offer_role_by_string_comparison:
  assumes "a \<noteq> b"
  shows "shouldCreateOffer a b = str_lt a b
    \<and> (shouldCreateOffer a b \<longleftrightarrow> \<not> shouldCreateOffer b a)
    \<and> (\<forall>env c. CreateOffer \<in> set (setupPeerConnection_offer env c a b)
                   \<longleftrightarrow> userExists env \<and> str_lt a b)
    \<and> (\<forall>env c snap l. CreateAnswer \<in> set (onConnectionSnapshot env c a b snap l)
                   \<longrightarrow> \<not> shouldCreateOffer a b)
    \<and> (\<forall>st. RestartIce \<in> set (onconnectionstatechange a b st)
                   \<longleftrightarrow> (st = Failed \<or> st = Disconnected) \<and> str_lt a b)"
proof -
  have 1: "shouldCreateOffer a b = str_lt a b"
    by (simp add: shouldCreateOffer_def)
  have 2: "shouldCreateOffer a b \<longleftrightarrow> \<not> shouldCreateOffer b a"
    unfolding shouldCreateOffer_def using assms by (rule str_lt_exactly_one)
  have 3: "\<forall>env c snap l. CreateAnswer \<in> set (onConnectionSnapshot env c a b snap l)
                   \<longrightarrow> \<not> shouldCreateOffer a b"
    using CreateAnswer_in_snapshot by blast
  from 1 2 3 show ?thesis
    using CreateOffer_in_offer RestartIce_iff by blast
qed

theorem offer_role_witness:
  "[0x61 :: code_unit] \<noteq> [0x62]
   \<and> shouldCreateOffer [0x61] [0x62] \<and> \<not> shouldCreateOffer [0x62] [0x61]
   \<and> CreateAnswer \<in> set (onConnectionSnapshot
         \<lparr>userExists = True, createOffer_result = None,
          createAnswer_result = Some \<lparr>sd_type = [0x61], sdp = [0x76]\<rparr>,
          setLocalDescription_ok = True, setRemoteDescription_ok = True\<rparr>
         [0x63] [0x62] [0x61]
         (Some \<lparr>offer = Some \<lparr>sd_type = [0x6F], sdp = [0x76]\<rparr>, answer = None\<rparr>) False)
   \<and> onconnectionstatechange [0x61] [0x62] Failed = [RestartIce]
   \<and> onconnectionstatechange [0x62] [0x61] Failed = []"
proof -
  have h: "[0x61 :: code_unit] \<noteq> [0x62]" by simp
  have one: "shouldCreateOffer [0x61 :: code_unit] [0x62]
      \<longleftrightarrow> \<not> shouldCreateOffer [0x62 :: code_unit] [0x61]"
    using offer_role_by_string_comparison [OF h] by blast
  have off: "shouldCreateOffer [0x61 :: code_unit] [0x62]"
    by (simp add: shouldCreateOffer_def)
  have ans: "CreateAnswer \<in> set (onConnectionSnapshot
         \<lparr>userExists = True, createOffer_result = None,
          createAnswer_result = Some \<lparr>sd_type = [0x61], sdp = [0x76]\<rparr>,
          setLocalDescription_ok = True, setRemoteDescription_ok = True\<rparr>
         [0x63] [0x62] [0x61]
         (Some \<lparr>offer = Some \<lparr>sd_type = [0x6F], sdp = [0x76]\<rparr>, answer = None\<rparr>) False)"
    by (simp add: onConnectionSnapshot_def shouldCreateOffer_def)
  have ice: "onconnectionstatechange [0x61] [0x62] Failed = [RestartIce]
      \<and> onconnectionstatechange [0x62] [0x61] Failed = []"
    by (simp add: onconnectionstatechange_def)
  from h one off ans ice show ?thesis by blast
qed

subsection \<open>The connection document of a pair\<close>








subsection \<open>The two copies of the group call\<close>

text \<open>
  Claim C9. The copy of the group call in PhilosophicalQuote.tsx decides the roles as
  GroupVideoCall.tsx does: for all participant ids both compute the same
  \<open>shouldCreateOffer\<close>, the same connection id, the same document for the offer and
  the same collection for the candidates.
\<close>

theorem copies_agree_on_roles:
  "pq_shouldCreateOffer a b = shouldCreateOffer a b
   \<and> pq_connectionId a b = connectionId a b
   \<and> pq_offerDocId a b = offerDocId a b
   \<and> pq_candidatesRef c a b = candidatesRef c a b"
  by (simp add: pq_shouldCreateOffer_def shouldCreateOffer_def pq_connectionId_def
      connectionId_def pq_offerDocId_def offerDocId_def pq_candidatesRef_def candidatesRef_def)

subsection \<open>Remote candidates\<close>

text \<open>
  Claim C5. The guard of the candidate listener tests the truthiness of the three
  fields. A record whose \<open>sdpMLineIndex\<close> is \<open>0\<close> therefore takes the
  incomplete-data branch when it is an added record of the other side, whatever its
  \<open>candidate\<close> and \<open>sdpMid\<close> are, and in no case is its candidate added or a retry
  scheduled.
\<close>

theorem zero_line_index_rejected:
  assumes "sdpMLineIndex data = Some 0"
  shows "(ty = Added \<and> sender data \<noteq> currentUserId
            \<longrightarrow> onCandidateChange currentUserId ty data hasRemote = [LogIncompleteCandidate])
    \<and> \<not> list_ex adds_candidate (onCandidateChange currentUserId ty data hasRemote)
    \<and> \<not> list_ex schedules_timer (onCandidateChange currentUserId ty data hasRemote)"
  using assms by (simp add: onCandidateChange_def)


theorem zero_line_index_rejected_witness:
  "sdpMLineIndex \<lparr>sender = [0x62], sdpMLineIndex = Some 0, candidate = Some [0x63],
       sdpMid = Some [0x30]\<rparr> = Some 0
   \<and> truthy_str (candidate \<lparr>sender = [0x62], sdpMLineIndex = Some 0, candidate = Some [0x63],
       sdpMid = Some [0x30]\<rparr>)
   \<and> truthy_str (sdpMid \<lparr>sender = [0x62], sdpMLineIndex = Some 0, candidate = Some [0x63],
       sdpMid = Some [0x30]\<rparr>)
   \<and> onCandidateChange [0x61] Added
        \<lparr>sender = [0x62], sdpMLineIndex = Some 0, candidate = Some [0x63],
         sdpMid = Some [0x30]\<rparr> True = [LogIncompleteCandidate]"
proof -
  let ?d = "\<lparr>sender = [0x62 :: code_unit], sdpMLineIndex = Some 0, candidate = Some [0x63 :: code_unit],
       sdpMid = Some [0x30 :: code_unit]\<rparr>"
  have h: "sdpMLineIndex ?d = Some 0" by simp
  have pre: "Added = Added \<and> sender ?d \<noteq> [0x61]" by simp
  have "onCandidateChange [0x61] Added ?d True = [LogIncompleteCandidate]"
    using zero_line_index_rejected [OF h, of Added "[0x61]" True] pre by blast
  then show ?thesis by simp
qed


text \<open>
  Claim C2, as the code has it. An added record of the other side that passes the
  guard (all three fields truthy) and arrives while the remote description is not set
  is not added: one timer of 2000 milliseconds is started for it and nothing else
  happens. When that timer fires without a remote description the callback does
  nothing, so no further timer exists; with a remote description it adds the
  candidate.
\<close>

theorem candidate_retry_once:
  assumes "sender data \<noteq> currentUserId"
    and "truthy_num (sdpMLineIndex data)"
    and "truthy_str (candidate data)"
    and "truthy_str (sdpMid data)"
  shows "onCandidateChange currentUserId Added data False
           = [SetTimeout 2000 (RetryCandidate (mk_candidate data))]
    \<and> run_timer (RetryCandidate (mk_candidate data)) False = []
    \<and> run_timer (RetryCandidate (mk_candidate data)) True
         = [AddIceCandidate (mk_candidate data)]"
  using assms by (simp add: onCandidateChange_def)


theorem candidate_retry_once_witness:
  "onCandidateChange [0x61] Added
        \<lparr>sender = [0x62], sdpMLineIndex = Some 1, candidate = Some [0x63],
         sdpMid = Some [0x31]\<rparr> False
     = [SetTimeout 2000 (RetryCandidate
          \<lparr>ic_sdpMLineIndex = Some 1, ic_candidate = Some [0x63], ic_sdpMid = Some [0x31]\<rparr>)]
   \<and> run_timer (RetryCandidate
          \<lparr>ic_sdpMLineIndex = Some 1, ic_candidate = Some [0x63], ic_sdpMid = Some [0x31]\<rparr>) False = []"
proof -
  let ?d = "\<lparr>sender = [0x62 :: code_unit], sdpMLineIndex = Some 1, candidate = Some [0x63 :: code_unit],
       sdpMid = Some [0x31 :: code_unit]\<rparr>"
  have h1: "sender ?d \<noteq> [0x61]" by simp
  have h2: "truthy_num (sdpMLineIndex ?d)" by simp
  have h3: "truthy_str (candidate ?d)" by simp
  have h4: "truthy_str (sdpMid ?d)" by simp
  have mk: "mk_candidate ?d = \<lparr>ic_sdpMLineIndex = Some 1, ic_candidate = Some [0x63], ic_sdpMid = Some [0x31]\<rparr>"
    by (simp add: mk_candidate_def)
  show ?thesis
    using candidate_retry_once [OF h1 h2 h3 h4] unfolding mk by blast
qed


text \<open>
  The claim without the guard fails. A record of the other side with
  \<open>sdpMLineIndex = 0\<close>, a candidate string and an \<open>sdpMid\<close>, arriving without a
  remote description, starts no timer; neither does a record whose candidate string is
  empty, as the one a browser sends to mark the end of its candidates.
\<close>

theorem candidate_retry_counterexample:
  "sender \<lparr>sender = bob, sdpMLineIndex = Some 0, candidate = Some [0x63],
         sdpMid = Some [0x30]\<rparr> \<noteq> alice
   \<and> onCandidateChange alice Added
        \<lparr>sender = bob, sdpMLineIndex = Some 0, candidate = Some [0x63],
         sdpMid = Some [0x30]\<rparr> False = [LogIncompleteCandidate]
   \<and> \<not> list_ex schedules_timer (onCandidateChange alice Added
        \<lparr>sender = bob, sdpMLineIndex = Some 0, candidate = Some [0x63],
         sdpMid = Some [0x30]\<rparr> False)
   \<and> onCandidateChange alice Added
        \<lparr>sender = bob, sdpMLineIndex = Some 1, candidate = Some [],
         sdpMid = Some [0x31]\<rparr> False = [LogIncompleteCandidate]
   \<and> \<not> list_ex schedules_timer (onCandidateChange alice Added
        \<lparr>sender = bob, sdpMLineIndex = Some 1, candidate = Some [],
         sdpMid = Some [0x31]\<rparr> False)"
  by (simp add: onCandidateChange_def alice_def bob_def)

subsection \<open>The caller's candidates in the one-to-one call\<close>

lemma vc_onicecandidate_None: "vc_onicecandidate None ev oc = oc"
  by (simp add: vc_onicecandidate_def split: option.splits)

lemma installed_startCall:
  "set (installed_handlers (snd (startCall env s newId))) \<subseteq> {callDocId s}"
  by (simp add: startCall_def Let_def)


text \<open>
  Claim C4. When \<open>startCall\<close> belongs to a render whose \<open>callDocId\<close> is still
  \<open>null\<close>, as in the first render, every handler it installs has closed over
  \<open>null\<close> and leaves the \<open>offerCandidates\<close> store as it is on every event. A handler
  changes the store only when the value it closed over is not \<open>null\<close>. In a run
  where nothing throws, the handler is installed first, then the offer is created, and
  only at the end is \<open>callDocId\<close> assigned.
\<close>

theorem startCall_candidates_never_published:
  assumes "callDocId s = None"
  shows "(\<forall>cap \<in> set (installed_handlers (snd (startCall env s newId))).
            cap = None \<and> (\<forall>ev oc. vc_onicecandidate cap ev oc = oc))
    \<and> (\<forall>cap ev oc. vc_onicecandidate cap ev oc \<noteq> oc \<longrightarrow> cap \<noteq> None)
    \<and> (vc_getUserMedia_ok env \<and> vc_createOffer_ok env \<and> vc_setLocalDescription_ok env
          \<and> vc_setDoc_ok env
        \<longrightarrow> snd (startCall env s newId)
              = [InstallIceHandler None, VcCreateOffer, VcSetLocalDescription,
                 SetCallDocument newId, SetCallDocId newId]
            \<and> callDocId (fst (startCall env s newId)) = Some newId)"
proof -
  have a: "\<forall>cap \<in> set (installed_handlers (snd (startCall env s newId))).
            cap = None \<and> (\<forall>ev oc. vc_onicecandidate cap ev oc = oc)"
    using installed_startCall [of env s newId] assms vc_onicecandidate_None by auto
  have b: "\<forall>cap ev oc. vc_onicecandidate cap ev oc \<noteq> oc \<longrightarrow> cap \<noteq> None"
  proof (intro allI impI)
    fix cap ev oc
    assume "vc_onicecandidate cap ev oc \<noteq> oc"
    then show "cap \<noteq> None"
      by (cases cap) (simp_all add: vc_onicecandidate_None)
  qed
  have c: "vc_getUserMedia_ok env \<and> vc_createOffer_ok env \<and> vc_setLocalDescription_ok env
          \<and> vc_setDoc_ok env
        \<longrightarrow> snd (startCall env s newId)
              = [InstallIceHandler None, VcCreateOffer, VcSetLocalDescription,
                 SetCallDocument newId, SetCallDocId newId]
            \<and> callDocId (fst (startCall env s newId)) = Some newId"
    using assms by (simp add: startCall_def Let_def)
  from a b c show ?thesis by blast
qed



theorem startCall_witness:
  "callDocId initial_state = None
   \<and> snd (startCall \<lparr>vc_getUserMedia_ok = True, vc_createOffer_ok = True,
        vc_setLocalDescription_ok = True, vc_setDoc_ok = True\<rparr> initial_state [0x64])
       = [InstallIceHandler None, VcCreateOffer, VcSetLocalDescription,
                 SetCallDocument [0x64], SetCallDocId [0x64]]
   \<and> callDocId (fst (startCall \<lparr>vc_getUserMedia_ok = True, vc_createOffer_ok = True,
        vc_setLocalDescription_ok = True, vc_setDoc_ok = True\<rparr> initial_state [0x64])) = Some [0x64]
   \<and> vc_onicecandidate None
         (Some \<lparr>ic_sdpMLineIndex = Some 0, ic_candidate = Some [0x63], ic_sdpMid = Some [0x30]\<rparr>) []
       = []
   \<and> vc_onicecandidate (Some [0x64])
         (Some \<lparr>ic_sdpMLineIndex = Some 0, ic_candidate = Some [0x63], ic_sdpMid = Some [0x30]\<rparr>) []
       = [([0x64], \<lparr>ic_sdpMLineIndex = Some 0, ic_candidate = Some [0x63], ic_sdpMid = Some [0x30]\<rparr>)]"
proof -
  let ?env = "\<lparr>vc_getUserMedia_ok = True, vc_createOffer_ok = True,
        vc_setLocalDescription_ok = True, vc_setDoc_ok = True\<rparr>"
  have h: "callDocId initial_state = None" by (simp add: initial_state_def)
  have ok: "vc_getUserMedia_ok ?env \<and> vc_createOffer_ok ?env \<and> vc_setLocalDescription_ok ?env
          \<and> vc_setDoc_ok ?env" by simp
  have run: "snd (startCall ?env initial_state [0x64])
              = [InstallIceHandler None, VcCreateOffer, VcSetLocalDescription,
                 SetCallDocument [0x64], SetCallDocId [0x64]]
            \<and> callDocId (fst (startCall ?env initial_state [0x64])) = Some [0x64]"
    using startCall_candidates_never_published [OF h, of ?env "[0x64]"] ok by blast
  have ev: "vc_onicecandidate None
         (Some \<lparr>ic_sdpMLineIndex = Some 0, ic_candidate = Some [0x63], ic_sdpMid = Some [0x30]\<rparr>) []
       = []
   \<and> vc_onicecandidate (Some [0x64])
         (Some \<lparr>ic_sdpMLineIndex = Some 0, ic_candidate = Some [0x63], ic_sdpMid = Some [0x30]\<rparr>) []
       = [([0x64], \<lparr>ic_sdpMLineIndex = Some 0, ic_candidate = Some [0x63], ic_sdpMid = Some [0x30]\<rparr>)]"
    by (simp add: vc_onicecandidate_def)
  from h run ev show ?thesis by blast
qed


subsection \<open>Local media\<close>

lemma initializeCall_outcome:
  "snd (initializeCall env gum u gid dn ph newId now w) =
     (case snd (initializeCall_record env u gid dn ph newId now w) of
        None \<Rightarrow> JoinFailed
      | Some cid \<Rightarrow> JoinedCall cid (acquireMedia gum))"
  by (simp add: initializeCall_def split: prod.splits option.splits)


text \<open>
  Claim C6. Local media is acquired by a fallback chain: video and audio; failing
  that, audio alone with the video flag off; failing that too, an empty stream with
  video off, microphone muted and view-only mode. Once the call record is created or
  joined, \<open>initializeCall\<close> joins whatever the media requests return, and whether it
  aborts does not depend on them.
\<close>

theorem media_fallback_never_aborts:
  "(\<forall>s. gum True True = Some s \<longrightarrow>
        acquireMedia gum = \<lparr>stream = s, hasVideo = True, hasAudio = True, isViewOnly = False,
                              isVideoOff = False, isMicMuted = False\<rparr>)
   \<and> (\<forall>s. gum True True = None \<and> gum False True = Some s \<longrightarrow>
        acquireMedia gum = \<lparr>stream = s, hasVideo = False, hasAudio = True, isViewOnly = False,
                              isVideoOff = True, isMicMuted = False\<rparr>)
   \<and> (gum True True = None \<and> gum False True = None \<longrightarrow>
        acquireMedia gum = \<lparr>stream = [], hasVideo = False, hasAudio = False, isViewOnly = True,
                              isVideoOff = True, isMicMuted = True\<rparr>)
   \<and> (\<forall>cid. snd (initializeCall_record env u gid dn ph newId now w) = Some cid \<longrightarrow>
        initializeCall env gum u gid dn ph newId now w
          = (fst (initializeCall_record env u gid dn ph newId now w),
             JoinedCall cid (acquireMedia gum)))
   \<and> (snd (initializeCall env gum u gid dn ph newId now w) = JoinFailed
        \<longleftrightarrow> snd (initializeCall env (\<lambda>v a. Some [AudioTrack, VideoTrack]) u gid dn ph newId now w)
              = JoinFailed)"
  by (auto simp: acquireMedia_def initializeCall_def split: prod.splits option.splits)

theorem media_fallback_witness:
  "denied True True = None \<and> denied False True = None
   \<and> acquireMedia denied = \<lparr>stream = [], hasVideo = False, hasAudio = False, isViewOnly = True,
                              isVideoOff = True, isMicMuted = True\<rparr>
   \<and> snd (initializeCall_record all_ok alice group1 alice None call1 1 empty_world) = Some call1
   \<and> snd (initializeCall all_ok denied alice group1 alice None call1 1 empty_world)
       = JoinedCall call1 \<lparr>stream = [], hasVideo = False, hasAudio = False, isViewOnly = True,
                              isVideoOff = True, isMicMuted = True\<rparr>"
proof -
  have d: "denied True True = None \<and> denied False True = None"
    by (simp add: denied_def)
  have r: "snd (initializeCall_record all_ok alice group1 alice None call1 1 empty_world) = Some call1"
    by (simp add: initializeCall_record_def all_ok_def empty_world_def activeCalls_def Let_def)
  note t = media_fallback_never_aborts [of denied all_ok alice group1 alice None call1 1 empty_world]
  from t d have m: "acquireMedia denied = \<lparr>stream = [], hasVideo = False, hasAudio = False,
        isViewOnly = True, isVideoOff = True, isMicMuted = True\<rparr>"
    by blast
  from t r have "initializeCall all_ok denied alice group1 alice None call1 1 empty_world
          = (fst (initializeCall_record all_ok alice group1 alice None call1 1 empty_world),
             JoinedCall call1 (acquireMedia denied))"
    by blast
  then have j: "snd (initializeCall all_ok denied alice group1 alice None call1 1 empty_world)
       = JoinedCall call1 \<lparr>stream = [], hasVideo = False, hasAudio = False, isViewOnly = True,
                              isVideoOff = True, isMicMuted = True\<rparr>"
    using m by simp
  from d m r j show ?thesis by blast
qed

subsection \<open>Leaving a call\<close>

lemma map_of_update:
  "map_of (map (\<lambda>(i, c). if i = k then (i, f c) else (i, c)) cs) k'
     = (if k' = k then map_option f (map_of cs k) else map_of cs k')"
  by (induction cs) auto

lemma updateDoc_found:
  "map_of cs k = Some v \<Longrightarrow>
   updateDoc k f cs = Some (map (\<lambda>(i, c). if i = k then (i, f c) else (i, c)) cs)"
  by (simp add: updateDoc_def)

lemma updateDoc_result:
  "updateDoc k f cs = Some cs' \<Longrightarrow>
   cs' = map (\<lambda>(i, c). if i = k then (i, f c) else (i, c)) cs"
  by (simp add: updateDoc_def split: if_splits)

lemma cleanup_found:
  assumes "cid \<noteq> []" "getDoc_ok env" "updateDoc_ok env" "map_of cs cid = Some callData"
  shows "cleanup env u (Some cid) now cs =
     map (\<lambda>(i, c). if i = cid
            then (i, if creatorId callData = u
                        \<or> filter (\<lambda>i. i \<noteq> u) (participants_or_empty callData) = []
                     then c\<lparr>status := Ended,
                            participants := Some (filter (\<lambda>i. i \<noteq> u) (participants_or_empty callData)),
                            endTime := Some now\<rparr>
                     else c\<lparr>participants := Some (filter (\<lambda>i. i \<noteq> u) (participants_or_empty callData))\<rparr>)
            else (i, c)) cs"
  using assms by (auto simp: cleanup_def Let_def updateDoc_found)


text \<open>
  The Leave button. When \<open>cleanup\<close> runs with the id of an existing call record and
  its Firestore calls succeed, the leaver is filtered out of the participants; if the
  leaver is the creator or nobody is left, the record gets status \<open>ended\<close> and an
  end time, otherwise only its participants change. No other record changes.
\<close>

theorem cleanup_leaves_call:
  assumes "cid \<noteq> []" and "getDoc_ok env" and "updateDoc_ok env"
    and "map_of cs cid = Some callData"
  shows "map_of (cleanup env u (Some cid) now cs) cid =
           Some (if creatorId callData = u
                    \<or> filter (\<lambda>i. i \<noteq> u) (participants_or_empty callData) = []
                 then callData\<lparr>status := Ended,
                        participants := Some (filter (\<lambda>i. i \<noteq> u) (participants_or_empty callData)),
                        endTime := Some now\<rparr>
                 else callData\<lparr>participants :=
                        Some (filter (\<lambda>i. i \<noteq> u) (participants_or_empty callData))\<rparr>)
    \<and> (\<forall>k. k \<noteq> cid \<longrightarrow> map_of (cleanup env u (Some cid) now cs) k = map_of cs k)
    \<and> map (status \<circ> snd) (cleanup env u (Some cid) now cs)
        = (if creatorId callData = u
              \<or> filter (\<lambda>i. i \<noteq> u) (participants_or_empty callData) = []
           then map (\<lambda>(i, c). if i = cid then Ended else status c) cs
           else map (status \<circ> snd) cs)"
proof -
  have 1: "map_of (cleanup env u (Some cid) now cs) cid =
           Some (if creatorId callData = u
                    \<or> filter (\<lambda>i. i \<noteq> u) (participants_or_empty callData) = []
                 then callData\<lparr>status := Ended,
                        participants := Some (filter (\<lambda>i. i \<noteq> u) (participants_or_empty callData)),
                        endTime := Some now\<rparr>
                 else callData\<lparr>participants :=
                        Some (filter (\<lambda>i. i \<noteq> u) (participants_or_empty callData))\<rparr>)"
    unfolding cleanup_found [OF assms] map_of_update using assms(4) by simp
  have 2: "\<forall>k. k \<noteq> cid \<longrightarrow> map_of (cleanup env u (Some cid) now cs) k = map_of cs k"
    unfolding cleanup_found [OF assms] map_of_update by simp
  have 3: "map (status \<circ> snd) (cleanup env u (Some cid) now cs)
        = (if creatorId callData = u
              \<or> filter (\<lambda>i. i \<noteq> u) (participants_or_empty callData) = []
           then map (\<lambda>(i, c). if i = cid then Ended else status c) cs
           else map (status \<circ> snd) cs)"
    unfolding cleanup_found [OF assms] by (auto simp: comp_def)
  from 1 2 3 show ?thesis by blast
qed



theorem cleanup_leaves_call_witness:
  "call1 \<noteq> [] \<and> getDoc_ok all_ok \<and> updateDoc_ok all_ok
   \<and> map_of call_of_two call1
       = Some \<lparr>groupId = group1, creatorId = alice, creatorName = alice,
               creatorPhotoURL = [], status = Active, participants = Some [alice, bob],
               startTime = 1, endTime = None\<rparr>
   \<and> map_of (cleanup all_ok bob (Some call1) 7 call_of_two) call1
       = Some \<lparr>groupId = group1, creatorId = alice, creatorName = alice,
               creatorPhotoURL = [], status = Active, participants = Some [alice],
               startTime = 1, endTime = None\<rparr>
   \<and> map_of (cleanup all_ok alice (Some call1) 7 call_of_two) call1
       = Some \<lparr>groupId = group1, creatorId = alice, creatorName = alice,
               creatorPhotoURL = [], status = Ended, participants = Some [bob],
               startTime = 1, endTime = Some 7\<rparr>"
proof -
  let ?cd = "\<lparr>groupId = group1, creatorId = alice, creatorName = alice,
               creatorPhotoURL = [], status = Active, participants = Some [alice, bob],
               startTime = 1, endTime = None\<rparr>"
  have h1: "call1 \<noteq> []" by (simp add: call1_def)
  have h2: "getDoc_ok all_ok" by (simp add: all_ok_def)
  have h3: "updateDoc_ok all_ok" by (simp add: all_ok_def)
  have h4: "map_of call_of_two call1 = Some ?cd" by (simp add: call_of_two_def)
  have ne: "alice \<noteq> bob" by (simp add: alice_def bob_def)
  have b: "map_of (cleanup all_ok bob (Some call1) 7 call_of_two) call1
       = Some \<lparr>groupId = group1, creatorId = alice, creatorName = alice,
               creatorPhotoURL = [], status = Active, participants = Some [alice],
               startTime = 1, endTime = None\<rparr>"
    using cleanup_leaves_call [OF h1 h2 h3 h4, of bob 7] ne
    by (simp add: participants_or_empty_def)
  have a: "map_of (cleanup all_ok alice (Some call1) 7 call_of_two) call1
       = Some \<lparr>groupId = group1, creatorId = alice, creatorName = alice,
               creatorPhotoURL = [], status = Ended, participants = Some [bob],
               startTime = 1, endTime = Some 7\<rparr>"
    using cleanup_leaves_call [OF h1 h2 h3 h4, of alice 7] ne
    by (simp add: participants_or_empty_def)
  from h1 h2 h3 h4 a b show ?thesis by blast
qed

text \<open>
  Claim C7. A participant who leaves is to be removed from the participants of the
  call record, and the record ended when the creator or the last participant leaves.
  The code does so on the Leave button only. A participant who leaves by closing the
  call dialog unmounts the component, and the \<open>cleanup\<close> that React then runs is the
  one of the first render: its \<open>callId\<close> is \<open>null\<close>, so it reads and writes no
  record whatever the record holds. In the call of alice (the creator) and bob, with
  every Firestore call succeeding, bob stays listed after he left this way, and the
  call stays active after alice did, where the Leave button removes bob and ends the
  call of alice.
\<close>

theorem unmount_keeps_leaver_listed:
  "unmount env u now cs = cs
   \<and> map_of (unmount all_ok bob 7 call_of_two) call1
       = Some \<lparr>groupId = group1, creatorId = alice, creatorName = alice,
               creatorPhotoURL = [], status = Active, participants = Some [alice, bob],
               startTime = 1, endTime = None\<rparr>
   \<and> map_of (endCall all_ok bob (Some call1) 7 call_of_two) call1
       = Some \<lparr>groupId = group1, creatorId = alice, creatorName = alice,
               creatorPhotoURL = [], status = Active, participants = Some [alice],
               startTime = 1, endTime = None\<rparr>
   \<and> map_of (unmount all_ok alice 7 call_of_two) call1
       = Some \<lparr>groupId = group1, creatorId = alice, creatorName = alice,
               creatorPhotoURL = [], status = Active, participants = Some [alice, bob],
               startTime = 1, endTime = None\<rparr>
   \<and> map_of (endCall all_ok alice (Some call1) 7 call_of_two) call1
       = Some \<lparr>groupId = group1, creatorId = alice, creatorName = alice,
               creatorPhotoURL = [], status = Ended, participants = Some [bob],
               startTime = 1, endTime = Some 7\<rparr>"
proof -
  have u: "\<And>env u now cs. unmount env u now cs = cs"
    by (simp add: unmount_def mount_callId_def cleanup_def)
  have s: "map_of call_of_two call1
       = Some \<lparr>groupId = group1, creatorId = alice, creatorName = alice,
               creatorPhotoURL = [], status = Active, participants = Some [alice, bob],
               startTime = 1, endTime = None\<rparr>"
    by (simp add: call_of_two_def)
  have e: "map_of (endCall all_ok bob (Some call1) 7 call_of_two) call1
       = Some \<lparr>groupId = group1, creatorId = alice, creatorName = alice,
               creatorPhotoURL = [], status = Active, participants = Some [alice],
               startTime = 1, endTime = None\<rparr>
    \<and> map_of (endCall all_ok alice (Some call1) 7 call_of_two) call1
       = Some \<lparr>groupId = group1, creatorId = alice, creatorName = alice,
               creatorPhotoURL = [], status = Ended, participants = Some [bob],
               startTime = 1, endTime = Some 7\<rparr>"
    by (simp add: endCall_def cleanup_def updateDoc_def participants_or_empty_def all_ok_def
        call_of_two_def call1_def alice_def bob_def Let_def)
  from u s e show ?thesis by simp
qed

subsection \<open>Creating or joining a call\<close>

lemma cleanup_no_call: "cleanup env u None now cs = cs"
  by (simp add: cleanup_def)

lemma initializeCall_world:
  "fst (initializeCall env gum u gid dn ph newId now w)
     = fst (initializeCall_record env u gid dn ph newId now w)"
  by (simp add: initializeCall_def cleanup_no_call split: prod.splits option.splits)

lemma activeCalls_first:
  assumes "activeCalls gid cs = (cid, cd) # rest"
  shows "(cid, cd) \<in> set cs \<and> groupId cd = gid \<and> status cd = Active"
proof -
  have "(cid, cd) \<in> set (activeCalls gid cs)"
    using assms by simp
  then show ?thesis
    by (simp add: activeCalls_def)
qed









subsection \<open>No duplicate participants\<close>

lemma no_duplicates_entry:
  "no_duplicates cs \<Longrightarrow> (k, c) \<in> set cs \<Longrightarrow> distinct (participants_or_empty c)"
  by (auto simp: no_duplicates_def list_all_iff)

lemma no_duplicates_update:
  assumes "no_duplicates cs"
    and "\<And>c. distinct (participants_or_empty (f c))"
  shows "no_duplicates (map (\<lambda>(i, c). if i = k then (i, f c) else (i, c)) cs)"
  using assms by (induction cs) (auto simp: no_duplicates_def split: if_splits)

lemma no_duplicates_updateDoc:
  assumes "no_duplicates cs"
    and "\<And>c. distinct (participants_or_empty (f c))"
    and "updateDoc k f cs = Some cs'"
  shows "no_duplicates cs'"
  using updateDoc_result [OF assms(3)] no_duplicates_update [OF assms(1) assms(2)] by simp

lemma cleanup_no_duplicates:
  assumes "no_duplicates cs"
  shows "no_duplicates (cleanup env u callId now cs)"
proof (cases callId)
  case None
  with assms show ?thesis by (simp add: cleanup_def)
next
  case (Some cid)
  show ?thesis
  proof (cases "map_of cs cid")
    case None
    with Some assms show ?thesis by (simp add: cleanup_def)
  next
    case found: (Some callData)
    then have "(cid, callData) \<in> set cs" by (rule map_of_SomeD)
    with assms have d: "distinct (participants_or_empty callData)"
      by (rule no_duplicates_entry)
    let ?ps = "filter (\<lambda>i. i \<noteq> u) (participants_or_empty callData)"
    from d have dps: "distinct ?ps" by simp
    have e: "\<And>c. distinct (participants_or_empty
                (c\<lparr>status := Ended, participants := Some ?ps, endTime := Some now\<rparr>))"
      using dps by (simp add: participants_or_empty_def)
    have j: "\<And>c. distinct (participants_or_empty (c\<lparr>participants := Some ?ps\<rparr>))"
      using dps by (simp add: participants_or_empty_def)
    show ?thesis
      using Some found assms no_duplicates_updateDoc [OF assms e] no_duplicates_updateDoc [OF assms j]
      by (simp add: cleanup_def Let_def split: option.splits)
  qed
qed

lemma initializeCall_record_no_duplicates:
  assumes "no_duplicates (groupCalls w)"
  shows "no_duplicates (groupCalls (fst (initializeCall_record env u gid dn ph newId now w)))"
proof (cases "activeCalls gid (groupCalls w)")
  case Nil
  with assms show ?thesis
    by (simp add: initializeCall_record_def Let_def no_duplicates_def participants_or_empty_def)
next
  case (Cons e rest)
  obtain cid cd where e: "e = (cid, cd)" by (cases e)
  with Cons have ac: "activeCalls gid (groupCalls w) = (cid, cd) # rest" by simp
  from activeCalls_first [OF ac] assms have d: "distinct (participants_or_empty cd)"
    using no_duplicates_entry by blast
  show ?thesis
  proof (cases "u \<in> set (participants_or_empty cd)")
    case True
    with ac assms show ?thesis
      by (simp add: initializeCall_record_def Let_def)
  next
    case False
    with d have "\<And>c. distinct (participants_or_empty
                   (c\<lparr>participants := Some (participants_or_empty cd @ [u])\<rparr>))"
      by (simp add: participants_or_empty_def)
    from no_duplicates_updateDoc [OF assms this] ac assms False show ?thesis
      by (simp add: initializeCall_record_def Let_def split: option.splits)
  qed
qed

lemma run_step_no_duplicates:
  "no_duplicates (groupCalls w) \<Longrightarrow> no_duplicates (groupCalls (run_step st w))"
  by (cases st) (simp_all add: initializeCall_world initializeCall_record_no_duplicates
      cleanup_no_duplicates)

lemma run_steps_no_duplicates:
  "no_duplicates (groupCalls w) \<Longrightarrow> no_duplicates (groupCalls (run_steps sts w))"
  by (induction sts arbitrary: w) (simp_all add: run_step_no_duplicates)


text \<open>
  Claim C10. The participants of a call record never hold a user twice: every run of
  joins and leaves from the empty collection keeps all participant lists free of
  duplicates, and each single step keeps them so.
\<close>

theorem participants_never_duplicated:
  "no_duplicates (groupCalls (run_steps sts empty_world))
   \<and> (no_duplicates (groupCalls w) \<longrightarrow> no_duplicates (groupCalls (run_step st w)))"
  using run_steps_no_duplicates [of empty_world sts] run_step_no_duplicates [of w st]
  by (simp add: empty_world_def no_duplicates_def)

theorem participants_never_duplicated_witness:
  "no_duplicates (groupCalls (run_steps
       [Join all_ok denied alice group1 alice None call1 1,
        Join all_ok denied bob group1 bob None call1 2,
        Join all_ok denied bob group1 bob None call1 3,
        Leave all_ok alice (Some call1) 4] empty_world))
   \<and> map (participants \<circ> snd) (groupCalls (run_steps
       [Join all_ok denied alice group1 alice None call1 1,
        Join all_ok denied bob group1 bob None call1 2,
        Join all_ok denied bob group1 bob None call1 3] empty_world))
       = [Some [alice, bob]]
   \<and> no_duplicates call_of_two
   \<and> no_duplicates (groupCalls (run_step (Leave all_ok bob (Some call1) 4)
         \<lparr>groupCalls = call_of_two, groupMessages = []\<rparr>))"
proof -
  have 1: "no_duplicates (groupCalls (run_steps
       [Join all_ok denied alice group1 alice None call1 1,
        Join all_ok denied bob group1 bob None call1 2,
        Join all_ok denied bob group1 bob None call1 3,
        Leave all_ok alice (Some call1) 4] empty_world))"
    using participants_never_duplicated by blast
  have ne: "alice \<noteq> bob" by (simp add: alice_def bob_def)
  have 2: "map (participants \<circ> snd) (groupCalls (run_steps
       [Join all_ok denied alice group1 alice None call1 1,
        Join all_ok denied bob group1 bob None call1 2,
        Join all_ok denied bob group1 bob None call1 3] empty_world))
       = [Some [alice, bob]]"
    using ne
    by (simp add: initializeCall_def initializeCall_record_def all_ok_def empty_world_def
        activeCalls_def Let_def updateDoc_def participants_or_empty_def cleanup_def)
  have 3: "no_duplicates call_of_two"
    using ne by (simp add: no_duplicates_def call_of_two_def participants_or_empty_def)
  have 4: "no_duplicates (groupCalls (run_step (Leave all_ok bob (Some call1) 4)
         \<lparr>groupCalls = call_of_two, groupMessages = []\<rparr>))"
  proof -
    from participants_never_duplicated
      [where w = "\<lparr>groupCalls = call_of_two, groupMessages = []\<rparr>"
         and st = "Leave all_ok bob (Some call1) 4"]
    have "no_duplicates (groupCalls \<lparr>groupCalls = call_of_two, groupMessages = []\<rparr>)
      \<longrightarrow> no_duplicates (groupCalls (run_step (Leave all_ok bob (Some call1) 4)
         \<lparr>groupCalls = call_of_two, groupMessages = []\<rparr>))"
      by (rule conjunct2)
    with 3 show ?thesis by simp
  qed
  from 1 2 3 4 show ?thesis by blast
qed

end
